theory Spec2Isabelle
  imports Complex_Main "HOL-Library.Word" "HOL-Library.Log_Nat"
begin

section \<open>Python values\<close>

text \<open>
  A Python \<open>str\<close> is a sequence of Unicode code points; the messages and table entries of
  \<open>Ifasr_new.py\<close> are Chinese, so a string is modelled as the list of its code points.
  \<open>ascii\<close> embeds an ASCII literal.
\<close>

type_synonym pystr = "nat list"

type_synonym bytes = "8 word list"

definition ascii :: "string \<Rightarrow> pystr" where
  "ascii s = map of_char s"

text \<open>
  What \<open>json.loads\<close> and \<open>response.json()\<close> produce. A \<open>dict\<close> is an association list
  in insertion order, read with \<open>map_of\<close> (the first binding of a key is the dict's value).
  A \<open>float\<close> is the rational it denotes; an infinite or NaN float compares unequal to
  every integer, as a non-integral one does.
\<close>

datatype json =
    JNull
  | JBool bool
  | JInt int
  | JFloat rat
  | JStr pystr
  | JList "json list"
  | JObj "(pystr \<times> json) list"

text \<open>
  The exception classes the client raises or meets; every one of them is a subclass of
  Python's \<open>Exception\<close>. An f-string message is kept as its parts: the literal text and
  the interpolated values.
\<close>

datatype msg_part = Text pystr | Value json

datatype py_exc =
    PyException "msg_part list"
  | PyTimeoutError "msg_part list"
  | KeyError
  | TypeError
  | AttributeError
  | JSONDecodeError
  | RequestException
  | FileNotFoundError

fun is_Exception :: "py_exc \<Rightarrow> bool" where
  "is_Exception (PyException m) = True"
| "is_Exception (PyTimeoutError m) = True"
| "is_Exception KeyError = True"
| "is_Exception TypeError = True"
| "is_Exception AttributeError = True"
| "is_Exception JSONDecodeError = True"
| "is_Exception RequestException = True"
| "is_Exception FileNotFoundError = True"

definition bind_exc :: "py_exc + 'a \<Rightarrow> ('a \<Rightarrow> py_exc + 'b) \<Rightarrow> py_exc + 'b" where
  "bind_exc m f = (case m of Inl e \<Rightarrow> Inl e | Inr x \<Rightarrow> f x)"

subsection \<open>Operators on parsed values\<close>

text \<open>\<open>v == n\<close> for an integer literal \<open>n\<close>: \<open>True == 1\<close>, \<open>False == 0\<close>, \<open>4.0 == 4\<close>.\<close>

fun py_eq_int :: "json \<Rightarrow> int \<Rightarrow> bool" where
  "py_eq_int (JInt i) n = (i = n)"
| "py_eq_int (JBool b) n = ((if b then 1 else 0) = n)"
| "py_eq_int (JFloat q) n = (q = of_int n)"
| "py_eq_int JNull n = False"
| "py_eq_int (JStr s) n = False"
| "py_eq_int (JList xs) n = False"
| "py_eq_int (JObj kvs) n = False"

text \<open>\<open>v[k]\<close> with a string key: \<open>KeyError\<close> on a dict without it, \<open>TypeError\<close> elsewhere.\<close>

fun py_getitem :: "json \<Rightarrow> pystr \<Rightarrow> py_exc + json" where
  "py_getitem (JObj kvs) k = (case map_of kvs k of None \<Rightarrow> Inl KeyError | Some v \<Rightarrow> Inr v)"
| "py_getitem v k = Inl TypeError"

text \<open>\<open>v.get(k, default)\<close>: only a dict has the method.\<close>

fun py_get :: "json \<Rightarrow> pystr \<Rightarrow> json \<Rightarrow> py_exc + json" where
  "py_get (JObj kvs) k d = (case map_of kvs k of None \<Rightarrow> Inr d | Some v \<Rightarrow> Inr v)"
| "py_get v k d = Inl AttributeError"

fun starts_with :: "pystr \<Rightarrow> pystr \<Rightarrow> bool" where
  "starts_with [] s = True"
| "starts_with (p # ps) [] = False"
| "starts_with (p # ps) (c # cs) = (p = c \<and> starts_with ps cs)"

fun has_substring :: "pystr \<Rightarrow> pystr \<Rightarrow> bool" where
  "has_substring p [] = starts_with p []"
| "has_substring p (c # cs) = (starts_with p (c # cs) \<or> has_substring p cs)"

text \<open>
  \<open>k in v\<close> with a string \<open>k\<close>: key membership on a dict, element equality on a list,
  substring on a string, \<open>TypeError\<close> on a value that is not iterable.
\<close>

fun py_contains :: "pystr \<Rightarrow> json \<Rightarrow> py_exc + bool" where
  "py_contains k (JObj kvs) = Inr (map_of kvs k \<noteq> None)"
| "py_contains k (JList xs) = Inr (JStr k \<in> set xs)"
| "py_contains k (JStr s) = Inr (has_substring k s)"
| "py_contains k v = Inl TypeError"

fun keys_of :: "(pystr \<times> json) list \<Rightarrow> pystr list \<Rightarrow> pystr list" where
  "keys_of [] seen = []"
| "keys_of ((k, v) # kvs) seen =
     (if k \<in> set seen then keys_of kvs seen else k # keys_of kvs (k # seen))"

text \<open>
  \<open>for x in v\<close>: the elements of a list, the keys of a dict, the characters of a string,
  \<open>TypeError\<close> otherwise.
\<close>

fun py_iter :: "json \<Rightarrow> py_exc + json list" where
  "py_iter (JList xs) = Inr xs"
| "py_iter (JObj kvs) = Inr (map JStr (keys_of kvs []))"
| "py_iter (JStr s) = Inr (map (\<lambda>c. JStr [c]) s)"
| "py_iter v = Inl TypeError"

text \<open>A \<open>for\<close> loop whose body updates an accumulator and may raise.\<close>

fun for_each :: "('a \<Rightarrow> 's \<Rightarrow> py_exc + 's) \<Rightarrow> 'a list \<Rightarrow> 's \<Rightarrow> py_exc + 's" where
  "for_each body [] s = Inr s"
| "for_each body (x # xs) s =
     (case body x s of Inl e \<Rightarrow> Inl e | Inr s' \<Rightarrow> for_each body xs s')"

text \<open>\<open>"".join(segments)\<close>: every segment must be a \<open>str\<close>.\<close>

fun py_join :: "json list \<Rightarrow> py_exc + pystr" where
  "py_join [] = Inr []"
| "py_join (JStr s # xs) = (case py_join xs of Inl e \<Rightarrow> Inl e | Inr t \<Rightarrow> Inr (s @ t))"
| "py_join (v # xs) = Inl TypeError"

text \<open>
  \<open>json.loads(v)\<close>. The parser itself is the standard library's and is a parameter
  \<open>loads\<close>, \<open>None\<close> where it raises (\<open>JSONDecodeError\<close>); an argument that is not a
  \<open>str\<close> is a \<open>TypeError\<close>.
\<close>

fun py_json_loads :: "(pystr \<Rightarrow> json option) \<Rightarrow> json \<Rightarrow> py_exc + json" where
  "py_json_loads loads (JStr s) = (case loads s of None \<Rightarrow> Inl JSONDecodeError | Some d \<Rightarrow> Inr d)"
| "py_json_loads loads v = Inl TypeError"

section \<open>The error-code table\<close>

text \<open>\<open>ERROR_CODES\<close>, lines 31 to 49. The entry of 10006 is U+65E0 U+6548 U+7684 U+7B7E U+540D.\<close>

definition ERROR_CODES :: "(int \<times> pystr) list" where
  "ERROR_CODES =
    [(0, [25104, 21151]),
     (10005, [21442, 25968, 26080, 25928]),
     (10006, [26080, 25928, 30340, 31614, 21517]),
     (10007, [31614, 21517, 36807, 26399]),
     (10008, [35831, 27714, 22826, 39057, 32321]),
     (10009, [20313, 39069, 19981, 36275]),
     (10010, [26080, 25928, 30340, 35746, 21333, 73, 68]),
     (10011, [26080, 25928, 30340, 38899, 39057, 25991, 20214]),
     (10012, [38899, 39057, 26102, 38271, 36229, 36807, 38480, 21046]),
     (10019, [24182, 21457, 36229, 36807, 38480, 21046]),
     (10029, [35746, 21333, 19981, 23384, 22312]),
     (10101, [20869, 37096, 38169, 35823]),
     (10102, [36716, 20889, 22833, 36133]),
     (10103, [36716, 20889, 36229, 26102]),
     (10163, [36755, 20837, 21442, 25968, 26377, 35823]),
     (10205, [26080, 25928, 30340, 97, 112, 112, 105, 100]),
     (10800, [26080, 25928, 30340, 38899, 39057, 26684, 24335])]"

text \<open>The default of both lookups, U+672A U+77E5 U+9519 U+8BEF ("unknown error").\<close>

definition unknown_error :: pystr where
  "unknown_error = [26410, 30693, 38169, 35823]"

text \<open>
  \<open>ERROR_CODES.get(key, default)\<close> with a parsed value as the key. A dict key is found by
  hash and equality: \<open>True\<close> is the key 1, an integral float is the integer, a list or a
  dict is unhashable (\<open>TypeError\<close>).
\<close>

fun ERROR_CODES_get :: "json \<Rightarrow> pystr \<Rightarrow> py_exc + pystr" where
  "ERROR_CODES_get (JInt i) d = Inr (case map_of ERROR_CODES i of None \<Rightarrow> d | Some m \<Rightarrow> m)"
| "ERROR_CODES_get (JBool b) d =
     Inr (case map_of ERROR_CODES (if b then 1 else 0) of None \<Rightarrow> d | Some m \<Rightarrow> m)"
| "ERROR_CODES_get (JFloat q) d =
     Inr (if q = of_int \<lfloor>q\<rfloor>
          then (case map_of ERROR_CODES \<lfloor>q\<rfloor> of None \<Rightarrow> d | Some m \<Rightarrow> m) else d)"
| "ERROR_CODES_get JNull d = Inr d"
| "ERROR_CODES_get (JStr s) d = Inr d"
| "ERROR_CODES_get (JList xs) d = Inl TypeError"
| "ERROR_CODES_get (JObj kvs) d = Inl TypeError"

section \<open>Extracting the transcript\<close>

text \<open>The two strings \<open>extract_transcript_text\<close> returns when it finds no transcript:
  line 329, U+65E0 U+6CD5 U+89E3 U+6790 U+8F6C U+5199 U+7ED3 U+679C, and
  line 334, U+63D0 U+53D6 U+6587 U+672C U+5185 U+5BB9 U+5931 U+8D25.\<close>

definition unrecognised_format :: pystr where
  "unrecognised_format = [26080, 27861, 35299, 26512, 36716, 20889, 32467, 26524]"

definition extraction_failed :: pystr where
  "extraction_failed = [25552, 21462, 25991, 26412, 20869, 23481, 22833, 36133]"

text \<open>Lines 317 to 319 and 324 to 326: one \<open>cw\<close> or \<open>words\<close> entry.\<close>

definition word_body :: "json \<Rightarrow> json list \<Rightarrow> py_exc + json list" where
  "word_body cw segments =
     bind_exc (py_contains (ascii ''w'') cw) (\<lambda>has.
       if has then bind_exc (py_getitem cw (ascii ''w'')) (\<lambda>w. Inr (segments @ [w]))
       else Inr segments)"

text \<open>Lines 315 to 319.\<close>

definition ws_body :: "json \<Rightarrow> json list \<Rightarrow> py_exc + json list" where
  "ws_body ws segments =
     bind_exc (py_get ws (ascii ''cw'') (JList [])) (\<lambda>cws.
     bind_exc (py_iter cws) (\<lambda>items. for_each word_body items segments))"

text \<open>Lines 313 to 319.\<close>

definition rt_body :: "json \<Rightarrow> json list \<Rightarrow> py_exc + json list" where
  "rt_body rt segments =
     bind_exc (py_get rt (ascii ''ws'') (JList [])) (\<lambda>wss.
     bind_exc (py_iter wss) (\<lambda>items. for_each ws_body items segments))"

text \<open>Lines 308 to 319.\<close>

definition lattice_body :: "json \<Rightarrow> json list \<Rightarrow> py_exc + json list" where
  "lattice_body lattice segments =
     bind_exc (py_get lattice (ascii ''json_1best'') (JObj [])) (\<lambda>best.
     bind_exc (py_get best (ascii ''st'') (JObj [])) (\<lambda>st.
     bind_exc (py_get st (ascii ''rt'') (JList [])) (\<lambda>rts.
     bind_exc (py_iter rts) (\<lambda>items. for_each rt_body items segments))))"

text \<open>Lines 322 to 326.\<close>

definition sentence_body :: "json \<Rightarrow> json list \<Rightarrow> py_exc + json list" where
  "sentence_body sentence segments =
     bind_exc (py_get sentence (ascii ''words'') (JList [])) (\<lambda>ws.
     bind_exc (py_iter ws) (\<lambda>items. for_each word_body items segments))"

text \<open>The body of the \<open>try\<close>, lines 302 to 331.\<close>

definition extract_try :: "(pystr \<Rightarrow> json option) \<Rightarrow> json \<Rightarrow> py_exc + pystr" where
  "extract_try loads result =
     bind_exc (py_getitem result (ascii ''content'')) (\<lambda>content.
     bind_exc (py_getitem content (ascii ''orderResult'')) (\<lambda>raw.
     bind_exc (py_json_loads loads raw) (\<lambda>order_result.
     bind_exc (py_contains (ascii ''lattice'') order_result) (\<lambda>has_lattice.
       if has_lattice then
         bind_exc (py_getitem order_result (ascii ''lattice'')) (\<lambda>lat.
         bind_exc (py_iter lat) (\<lambda>items.
         bind_exc (for_each lattice_body items []) py_join))
       else
         bind_exc (py_contains (ascii ''sentences'') order_result) (\<lambda>has_sentences.
           if has_sentences then
             bind_exc (py_getitem order_result (ascii ''sentences'')) (\<lambda>sens.
             bind_exc (py_iter sens) (\<lambda>items.
             bind_exc (for_each sentence_body items []) py_join))
           else Inr unrecognised_format)))))"

text \<open>\<open>extract_transcript_text\<close>, lines 299 to 334: the \<open>try\<close> under \<open>except Exception\<close>.\<close>

definition extract_transcript_text :: "(pystr \<Rightarrow> json option) \<Rightarrow> json \<Rightarrow> py_exc + pystr" where
  "extract_transcript_text loads result =
     (case extract_try loads result of
        Inr text \<Rightarrow> Inr text
      | Inl e \<Rightarrow> if is_Exception e then Inr extraction_failed else Inl e)"

subsection \<open>The walk the specification describes\<close>

text \<open>
  The specification's reading of a payload: \<open>field k v\<close> is the member \<open>k\<close> of an object
  (no value when the member is absent), \<open>elems v\<close> the elements of an array. The tokens of a
  document are the \<open>w\<close> members met on the path
  \<open>lattice[] -> json_1best.st.rt[] -> ws[] -> cw[] -> w\<close>, or on
  \<open>sentences[] -> words[] -> w\<close>, in document order; the transcript is their concatenation.
\<close>

definition field :: "pystr \<Rightarrow> json \<Rightarrow> json list" where
  "field k v = (case v of JObj kvs \<Rightarrow> (case map_of kvs k of Some x \<Rightarrow> [x] | None \<Rightarrow> []) | _ \<Rightarrow> [])"









text \<open>
  The two schemas: every node on the path is of the kind the path expects (an object where
  a member is read, an array where elements are walked, a string at \<open>w\<close>); a member on
  the path may be absent.
\<close>

fun is_obj :: "json \<Rightarrow> bool" where
  "is_obj (JObj kvs) = True"
| "is_obj v = False"











subsection \<open>Example payloads\<close>

text \<open>
  A complete result (code 0, status 4) around an embedded document, the two documents of
  the specification's examples, and \<open>json.loads\<close> on the embedded texts the examples use.
\<close>

definition example_result :: "pystr \<Rightarrow> json" where
  "example_result raw =
     JObj [(ascii ''code'', JInt 0),
           (ascii ''content'', JObj [(ascii ''orderInfo'', JObj [(ascii ''status'', JInt 4)]),
                                     (ascii ''orderResult'', JStr raw)])]"

definition lattice_example :: json where
  "lattice_example =
     JObj [(ascii ''lattice'', JList [JObj [(ascii ''json_1best'',
       JObj [(ascii ''st'', JObj [(ascii ''rt'', JList [JObj [(ascii ''ws'', JList
         [JObj [(ascii ''cw'', JList [JObj [(ascii ''w'', JStr [20170])]])],
          JObj [(ascii ''cw'', JList [JObj [(ascii ''w'', JStr [22825])]])],
          JObj [(ascii ''cw'', JList [JObj [(ascii ''w'', JStr [22825, 27668])]])]])]])])])]])]"

definition sentences_example :: json where
  "sentences_example =
     JObj [(ascii ''sentences'', JList [JObj [(ascii ''words'', JList
       [JObj [(ascii ''w'', JStr (ascii ''hello''))],
        JObj [(ascii ''w'', JStr (ascii '' ''))],
        JObj [(ascii ''w'', JStr (ascii ''world''))]])]])]"

definition example_loads :: "pystr \<Rightarrow> json option" where
  "example_loads s =
     (if s = ascii ''lattice payload'' then Some lattice_example
      else if s = ascii ''sentences payload'' then Some sentences_example
      else if s = ascii ''{foo: 1}'' then Some (JObj [(ascii ''foo'', JInt 1)])
      else if s = ascii ''{lattice: 5}'' then Some (JObj [(ascii ''lattice'', JInt 5)])
      else None)"

section \<open>The client\<close>

text \<open>
  \<open>str(n)\<close> for an integer: its decimal digits, with a minus sign when negative.
\<close>

fun digits :: "nat \<Rightarrow> pystr" where
  "digits n = (if n < 10 then [48 + n] else digits (n div 10) @ [48 + n mod 10])"

declare digits.simps [simp del]

definition str_int :: "int \<Rightarrow> pystr" where
  "str_int i = (if i < 0 then 45 # digits (nat (- i)) else digits (nat i))"

text \<open>
  The primitives of \<open>hashlib\<close>, \<open>hmac\<close>, \<open>base64\<close> and the UTF-8 codec are the standard
  library's; the client is modelled over any implementation of them.
\<close>

record crypto =
  utf8_encode :: "pystr \<Rightarrow> bytes"
  utf8_decode :: "bytes \<Rightarrow> pystr"
  md5_hexdigest :: "bytes \<Rightarrow> pystr"
  hmac_sha1_digest :: "bytes \<Rightarrow> bytes \<Rightarrow> bytes"
  b64encode :: "bytes \<Rightarrow> bytes"

text \<open>
  The fields of \<open>LFASRClient\<close>, lines 64 to 69 and 74 to 75. The polling interval is a
  number of seconds that \<open>time.sleep\<close> accepts, so it is not negative (the application
  passes 5).
\<close>

record client =
  appid :: pystr
  secret_key :: pystr
  max_retry :: int
  poll_interval :: nat
  result_type :: pystr
  ts :: pystr
  signa :: pystr

text \<open>\<open>_generate_signa\<close>, lines 77 to 94.\<close>

definition generate_signa :: "crypto \<Rightarrow> client \<Rightarrow> pystr" where
  "generate_signa K self =
     (let data = utf8_encode K (appid self @ ts self);
          md5_value = md5_hexdigest K data;
          signa = hmac_sha1_digest K (utf8_encode K (secret_key self)) (utf8_encode K md5_value)
      in utf8_decode K (b64encode K signa))"

text \<open>\<open>update_timestamp\<close>, lines 72 to 75; \<open>now\<close> is \<open>int(time.time())\<close>.\<close>

definition update_timestamp :: "crypto \<Rightarrow> int \<Rightarrow> client \<Rightarrow> client" where
  "update_timestamp K now self =
     (let self1 = self\<lparr>ts := str_int now\<rparr>
      in self1\<lparr>signa := generate_signa K self1\<rparr>)"

text \<open>The specification's \<open>sign(appId, secretKey, timestamp)\<close>, section 4.1.\<close>

definition MD5 :: "crypto \<Rightarrow> pystr \<Rightarrow> pystr" where
  "MD5 K s = md5_hexdigest K (utf8_encode K s)"

definition HMAC_SHA1 :: "crypto \<Rightarrow> pystr \<Rightarrow> pystr \<Rightarrow> bytes" where
  "HMAC_SHA1 K key message = hmac_sha1_digest K (utf8_encode K key) (utf8_encode K message)"

definition base64 :: "crypto \<Rightarrow> bytes \<Rightarrow> pystr" where
  "base64 K b = utf8_decode K (b64encode K b)"

definition sign :: "crypto \<Rightarrow> pystr \<Rightarrow> pystr \<Rightarrow> pystr \<Rightarrow> pystr" where
  "sign K appId secretKey timestamp =
     (let md5Hex = MD5 K (appId @ timestamp);
          hmac = HMAC_SHA1 K secretKey md5Hex
      in base64 K hmac)"

section \<open>Polling for the result\<close>

text \<open>
  What one \<open>requests.get\<close> or \<open>requests.post\<close> gives: an exception of the library, or a
  response with its status code and what \<open>response.json()\<close> returns (\<open>None\<close> where it
  raises).
\<close>

datatype http_reply = RequestFailed | Response int "json option"

text \<open>The query parameters of lines 184 to 190; the URL of line 195 encodes them.\<close>

record poll_request =
  q_appId :: pystr
  q_signa :: pystr
  q_ts :: pystr
  q_orderId :: json
  q_resultType :: pystr

datatype event = Query poll_request | Sleep nat

text \<open>U+8F6C U+5199 U+5931 U+8D25, line 236, and
  U+83B7 U+53D6 U+8F6C U+5199 U+7ED3 U+679C U+8D85 U+65F6, line 249.\<close>

definition transcription_failed :: py_exc where
  "transcription_failed = PyException [Text [36716, 20889, 22833, 36133]]"

definition polling_timeout :: py_exc where
  "polling_timeout = PyTimeoutError [Text [33719, 21462, 36716, 20889, 32467, 26524, 36229, 26102]]"

text \<open>\<open>result['content']['orderInfo']['status']\<close>, line 223.\<close>

definition status_of :: "json \<Rightarrow> py_exc + json" where
  "status_of result =
     bind_exc (py_getitem result (ascii ''content'')) (\<lambda>content.
     bind_exc (py_getitem content (ascii ''orderInfo'')) (\<lambda>info.
     py_getitem info (ascii ''status'')))"

text \<open>
  The statements under \<open>try\<close>, lines 203 to 241, for one reply: they return the result,
  or go round the loop again having incremented \<open>attempts\<close> or not (each of these paths
  sleeps first), or raise.
\<close>

datatype poll_action = Return json | Retry bool

definition poll_try :: "http_reply \<Rightarrow> py_exc + poll_action" where
  "poll_try reply =
     (case reply of
        RequestFailed \<Rightarrow> Inl RequestException
      | Response status_code body \<Rightarrow>
          if status_code \<noteq> 200 then Inr (Retry True)
          else (case body of
             None \<Rightarrow> Inl JSONDecodeError
           | Some result \<Rightarrow>
               bind_exc (py_get result (ascii ''code'') JNull) (\<lambda>code.
                 if \<not> py_eq_int code 0 then
                   bind_exc (py_getitem result (ascii ''code'')) (\<lambda>key.
                   bind_exc (ERROR_CODES_get key unknown_error) (\<lambda>error_msg.
                   Inr (Retry True)))
                 else
                   bind_exc (status_of result) (\<lambda>status.
                     if py_eq_int status 4 then Inr (Return result)
                     else if py_eq_int status 0 \<or> py_eq_int status 1 \<or> py_eq_int status 3
                       then Inr (Retry False)
                     else if py_eq_int status 5 then Inl transcription_failed
                     else Inr (Retry True)))))"

text \<open>
  One round of the loop, lines 202 to 246: the \<open>try\<close> under \<open>except Exception\<close>, whose
  handler increments \<open>attempts\<close> and sleeps.
\<close>

datatype step = Done json | Again bool | Propagate py_exc

definition poll_step :: "http_reply \<Rightarrow> step" where
  "poll_step reply =
     (case poll_try reply of
        Inr (Return result) \<Rightarrow> Done result
      | Inr (Retry counted) \<Rightarrow> Again counted
      | Inl e \<Rightarrow> if is_Exception e then Again True else Propagate e)"

text \<open>
  The loop of lines 198 to 249 against the replies the server gives, in order. \<open>Pending\<close>:
  the replies are used up and the loop is about to query again.
\<close>

datatype poll_outcome = Returned json | Raised py_exc | Pending

record run =
  outcome :: poll_outcome
  attempts :: int
  events :: "event list"

fun poll_loop :: "client \<Rightarrow> poll_request \<Rightarrow> int \<Rightarrow> http_reply list \<Rightarrow> run" where
  "poll_loop self req n [] =
     (if n < max_retry self then \<lparr>outcome = Pending, attempts = n, events = []\<rparr>
      else \<lparr>outcome = Raised polling_timeout, attempts = n, events = []\<rparr>)"
| "poll_loop self req n (reply # replies) =
     (if n < max_retry self then
        (case poll_step reply of
           Done result \<Rightarrow> \<lparr>outcome = Returned result, attempts = n, events = [Query req]\<rparr>
         | Again counted \<Rightarrow>
             (let rest = poll_loop self req (if counted then n + 1 else n) replies
              in rest\<lparr>events := Query req # Sleep (poll_interval self) # events rest\<rparr>)
         | Propagate e \<Rightarrow> \<lparr>outcome = Raised e, attempts = n, events = [Query req]\<rparr>)
      else \<lparr>outcome = Raised polling_timeout, attempts = n, events = []\<rparr>)"

text \<open>\<open>get_transcription_result\<close>, lines 172 to 249: the client afterwards and the run.\<close>

definition get_transcription_result ::
  "crypto \<Rightarrow> int \<Rightarrow> client \<Rightarrow> json \<Rightarrow> http_reply list \<Rightarrow> client \<times> run" where
  "get_transcription_result K now self upload_result replies =
     (let self1 = update_timestamp K now self
      in case bind_exc (py_getitem upload_result (ascii ''content''))
                (\<lambda>content. py_getitem content (ascii ''orderId'')) of
           Inl e \<Rightarrow> (self1, \<lparr>outcome = Raised e, attempts = 0, events = []\<rparr>)
         | Inr order_id \<Rightarrow>
             (self1, poll_loop self1
                \<lparr>q_appId = appid self1, q_signa = signa self1, q_ts = ts self1,
                 q_orderId = order_id, q_resultType = result_type self1\<rparr> 0 replies))"

subsection \<open>The replies as the specification sorts them\<close>

text \<open>
  The status the specification reads in a reply body, \<open>content.orderInfo.status\<close>, and
  the kinds of reply of its section 4.3: a transport failure (the request fails or the
  HTTP status is not 200), an application error (a code other than 0), a body that cannot
  be read (no JSON, no \<open>code\<close>, or code 0 without a status), and the statuses: 4 complete,
  5 failed, 0, 1 and 3 in progress, any other unknown. \<open>counted\<close> are the kinds that the
  attempt counter counts by design.
\<close>

definition reply_status :: "json \<Rightarrow> json list" where
  "reply_status result =
     [s. content \<leftarrow> field (ascii ''content'') result,
         info \<leftarrow> field (ascii ''orderInfo'') content,
         s \<leftarrow> field (ascii ''status'') info]"

datatype kind =
  TransportFailure | ApplicationError | Malformed | Complete | Failed | InProgress | UnknownStatus

definition status_kind :: "json \<Rightarrow> kind" where
  "status_kind s =
     (if py_eq_int s 4 then Complete
      else if py_eq_int s 0 \<or> py_eq_int s 1 \<or> py_eq_int s 3 then InProgress
      else if py_eq_int s 5 then Failed
      else UnknownStatus)"

definition body_kind :: "json \<Rightarrow> kind" where
  "body_kind result =
     (case field (ascii ''code'') result of
        [] \<Rightarrow> Malformed
      | code # _ \<Rightarrow>
          if \<not> py_eq_int code 0 then ApplicationError
          else (case reply_status result of [] \<Rightarrow> Malformed | s # _ \<Rightarrow> status_kind s))"

fun reply_kind :: "http_reply \<Rightarrow> kind" where
  "reply_kind RequestFailed = TransportFailure"
| "reply_kind (Response status_code None) = (if status_code \<noteq> 200 then TransportFailure else Malformed)"
| "reply_kind (Response status_code (Some result)) =
     (if status_code \<noteq> 200 then TransportFailure else body_kind result)"

definition counted :: "http_reply \<Rightarrow> bool" where
  "counted reply = (reply_kind reply \<in> {TransportFailure, ApplicationError, Malformed, UnknownStatus})"

fun is_query :: "event \<Rightarrow> bool" where
  "is_query (Query rq) = True"
| "is_query (Sleep d) = False"

definition queries_issued :: "run \<Rightarrow> nat" where
  "queries_issued r = length (filter is_query (events r))"

text \<open>A reply with HTTP status 200 whose body is not JSON or has no status to read.\<close>

fun malformed_200 :: "http_reply \<Rightarrow> bool" where
  "malformed_200 RequestFailed = False"
| "malformed_200 (Response status_code None) = (status_code = 200)"
| "malformed_200 (Response status_code (Some result)) = (status_code = 200 \<and> reply_status result = [])"

subsection \<open>Example client and replies\<close>

text \<open>
  A stand-in for the library primitives, a client with the defaults of line 54, the upload
  result for order \<open>abc123\<close>, the query the client sends for it when the clock reads
  1700000000, and a well-formed reply with a given status.
\<close>

definition example_crypto :: crypto where
  "example_crypto =
     \<lparr>utf8_encode = map of_nat, utf8_decode = map unat, md5_hexdigest = map unat,
      hmac_sha1_digest = (\<lambda>key message. key @ message), b64encode = rev\<rparr>"

definition example_client :: client where
  "example_client =
     \<lparr>appid = ascii ''app'', secret_key = ascii ''key'', max_retry = 3, poll_interval = 5,
      result_type = ascii ''transfer,predict'', ts = ascii ''1699999990'', signa = []\<rparr>"

definition example_upload :: json where
  "example_upload =
     JObj [(ascii ''code'', JInt 0),
           (ascii ''content'', JObj [(ascii ''orderId'', JStr (ascii ''abc123''))])]"

definition example_request :: poll_request where
  "example_request =
     \<lparr>q_appId = ascii ''app'',
      q_signa = sign example_crypto (ascii ''app'') (ascii ''key'') (str_int 1700000000),
      q_ts = str_int 1700000000,
      q_orderId = JStr (ascii ''abc123''),
      q_resultType = ascii ''transfer,predict''\<rparr>"

definition status_reply :: "int \<Rightarrow> http_reply" where
  "status_reply s = Response 200 (Some (JObj [(ascii ''code'', JInt 0),
      (ascii ''content'', JObj [(ascii ''orderInfo'', JObj [(ascii ''status'', JInt s)]),
                               (ascii ''orderResult'', JStr [])])]))"

section \<open>The duration estimate\<close>

text \<open>
  \<open>int(file_size / 32000)\<close>, line 168. In Python 3 \<open>/\<close> on two integers is true
  division: the result is the IEEE-754 double nearest to the quotient, ties to even, and
  \<open>int\<close> truncates it. A positive double is kept as its 53-bit significand and exponent,
  \<open>(m, e)\<close> standing for \<open>m * 2 ^ e\<close>. The model covers a dividend \<open>n \<ge> 0\<close> and a divisor
  \<open>d > 0\<close> whose quotient is in the range of normal doubles, as every file size over 32000
  is. \<open>quotient_exponent n d\<close> is the integer part of the binary logarithm of \<open>n / d\<close>.
\<close>

definition round_half_even :: "int \<Rightarrow> int \<Rightarrow> int" where
  "round_half_even a b =
     (let q = a div b; r = a mod b
      in if 2 * r < b then q else if b < 2 * r then q + 1 else if even q then q else q + 1)"

definition quotient_exponent :: "int \<Rightarrow> int \<Rightarrow> int" where
  "quotient_exponent n d =
     (let s = bitlen n - bitlen d
      in if (0 \<le> s \<and> d * 2 ^ nat s \<le> n) \<or> (s < 0 \<and> d \<le> n * 2 ^ nat (- s))
         then s else s - 1)"

definition truediv :: "int \<Rightarrow> int \<Rightarrow> int \<times> int" where
  "truediv n d =
     (if n = 0 then (0, 0)
      else let e = quotient_exponent n d
           in if e \<le> 52 then (round_half_even (n * 2 ^ nat (52 - e)) d, e - 52)
              else (round_half_even n (d * 2 ^ nat (e - 52)), e - 52))"

definition int_of_float :: "int \<times> int \<Rightarrow> int" where
  "int_of_float x =
     (case x of (m, e) \<Rightarrow>
        if 0 \<le> e then m * 2 ^ nat e
        else if 0 \<le> m then m div 2 ^ nat (- e)
        else - ((- m) div 2 ^ nat (- e)))"

text \<open>\<open>_estimate_duration\<close>, lines 164 to 170, on the size \<open>os.path.getsize\<close> returns.\<close>

definition estimate_duration :: "int \<Rightarrow> pystr" where
  "estimate_duration file_size =
     (let duration = int_of_float (truediv file_size 32000)
      in str_int duration)"

section \<open>Uploading\<close>

text \<open>The query parameters of lines 115 to 122; the client is not re-signed for the upload.\<close>

record upload_request =
  u_appId :: pystr
  u_signa :: pystr
  u_ts :: pystr
  u_fileSize :: int
  u_fileName :: pystr
  u_duration :: pystr

definition upload_params :: "client \<Rightarrow> pystr \<Rightarrow> int \<Rightarrow> upload_request" where
  "upload_params self file_name file_size =
     \<lparr>u_appId = appid self, u_signa = signa self, u_ts = ts self,
      u_fileSize = file_size, u_fileName = file_name,
      u_duration = estimate_duration file_size\<rparr>"

text \<open>
  The messages of lines 147 and 159: U+4E0A U+4F20 U+5931 U+8D25 and \<open>" HTTP "\<close> before the
  status code; \<open>"API"\<close>, U+9519 U+8BEF and \<open>": "\<close> before the description, then
  \<open>" (code: "\<close>, the code and \<open>")"\<close>.
\<close>

definition upload_http_error :: "int \<Rightarrow> py_exc" where
  "upload_http_error status_code =
     PyException [Text [19978, 20256, 22833, 36133, 32, 72, 84, 84, 80, 32], Value (JInt status_code)]"

definition api_error :: "pystr \<Rightarrow> json \<Rightarrow> py_exc" where
  "api_error error_msg code =
     PyException [Text [65, 80, 73, 38169, 35823, 58, 32], Text error_msg,
                  Text [32, 40, 99, 111, 100, 101, 58, 32], Value code, Text [41]]"

text \<open>
  \<open>upload_file\<close>, lines 96 to 162, from the existence check on: whether the file exists, and
  what the POST gives. It returns the parsed response body.
\<close>

definition upload_file :: "bool \<Rightarrow> http_reply \<Rightarrow> py_exc + json" where
  "upload_file file_exists reply =
     (if \<not> file_exists then Inl FileNotFoundError
      else case reply of
        RequestFailed \<Rightarrow> Inl RequestException
      | Response status_code body \<Rightarrow>
          if status_code \<noteq> 200 then Inl (upload_http_error status_code)
          else (case body of
             None \<Rightarrow> Inl JSONDecodeError
           | Some result \<Rightarrow>
               bind_exc (py_get result (ascii ''code'') JNull) (\<lambda>code.
                 if \<not> py_eq_int code 0 then
                   bind_exc (py_getitem result (ascii ''code'')) (\<lambda>key.
                   bind_exc (ERROR_CODES_get key unknown_error) (\<lambda>error_msg.
                   Inl (api_error error_msg key)))
                 else
                   bind_exc (py_getitem result (ascii ''content'')) (\<lambda>content.
                   bind_exc (py_getitem content (ascii ''orderId'')) (\<lambda>order_id.
                   Inr result)))))"

text \<open>The description the table gives for an integer code.\<close>

definition error_description :: "int \<Rightarrow> pystr" where
  "error_description code = (case map_of ERROR_CODES code of None \<Rightarrow> unknown_error | Some m \<Rightarrow> m)"

section \<open>Properties\<close>

subsection \<open>The error-code table\<close>

text \<open>
  C9, as stated: code 10006 resolves to the exact description "invalid signature". The
  table's entry is the Chinese text U+65E0 U+6548 U+7684 U+7B7E U+540D, so the lookup does
  not return the English string.
\<close>

theorem C9_english_description_counterexample:
  "ERROR_CODES_get (JInt 10006) unknown_error \<noteq> Inr (ascii ''invalid signature'')"
  by (simp add: ERROR_CODES_def ascii_def)

text \<open>
  C9, amended: code 10006 resolves to the table's entry U+65E0 U+6548 U+7684 U+7B7E U+540D
  (Chinese for "invalid signature"), and every code that is not a key of the table resolves
  to the default U+672A U+77E5 U+9519 U+8BEF (Chinese for "unknown error").
\<close>

theorem C9_error_code_lookup:
  assumes "c \<notin> fst ` set ERROR_CODES"
  shows "ERROR_CODES_get (JInt 10006) unknown_error = Inr [26080, 25928, 30340, 31614, 21517]
       \<and> ERROR_CODES_get (JInt c) unknown_error = Inr [26410, 30693, 38169, 35823]"
proof -
  have "map_of ERROR_CODES c = None"
    using assms by (simp add: map_of_eq_None_iff)
  then have "ERROR_CODES_get (JInt c) unknown_error = Inr unknown_error"
    by simp
  moreover have "ERROR_CODES_get (JInt 10006) unknown_error = Inr [26080, 25928, 30340, 31614, 21517]"
    by (simp add: ERROR_CODES_def)
  ultimately show ?thesis
    by (simp add: unknown_error_def)
qed

theorem C9_error_code_lookup_witness:
  "99999 \<notin> fst ` set ERROR_CODES
   \<and> ERROR_CODES_get (JInt 10006) unknown_error = Inr [26080, 25928, 30340, 31614, 21517]
   \<and> ERROR_CODES_get (JInt 99999) unknown_error = Inr [26410, 30693, 38169, 35823]"
proof -
  have h: "99999 \<notin> fst ` set ERROR_CODES"
    by (simp add: ERROR_CODES_def)
  show ?thesis
    using h C9_error_code_lookup [OF h] by simp
qed

subsection \<open>Transcript extraction on the two schemas\<close>

lemma bind_exc_Inr: "bind_exc (Inr x) f = f x"
  by (simp add: bind_exc_def)

lemma bind_exc_Inl: "bind_exc (Inl e) f = Inl e"
  by (simp add: bind_exc_def)





























subsection \<open>Extraction never raises\<close>

lemma extract_catches:
  "extract_transcript_text loads result =
     (case extract_try loads result of Inr text \<Rightarrow> Inr text | Inl e \<Rightarrow> Inr extraction_failed)"
  by (cases "extract_try loads result"; cases "projl (extract_try loads result)")
     (simp_all add: extract_transcript_text_def)


text \<open>
  C5, as stated: an exception during traversal is converted to the same sentinel as an
  unrecognised schema. The code returns two different strings: the one of line 329 for a
  document with neither member, the one of line 334 for an exception (a \<open>lattice\<close> member
  that is a number, an embedded text that is not JSON).
\<close>

theorem C5_two_sentinels_counterexample:
  "extract_transcript_text example_loads (example_result (ascii ''{foo: 1}'')) = Inr unrecognised_format
   \<and> extract_transcript_text example_loads (example_result (ascii ''{lattice: 5}'')) = Inr extraction_failed
   \<and> extract_transcript_text example_loads (example_result (ascii ''not json'')) = Inr extraction_failed
   \<and> unrecognised_format \<noteq> extraction_failed"
  by (simp add: extract_transcript_text_def extract_try_def example_loads_def example_result_def
      bind_exc_def ascii_def unrecognised_format_def extraction_failed_def)


text \<open>
  C5, amended: for every parser and every result, \<open>extract_transcript_text\<close> returns a
  string and propagates no exception; any exception raised in the \<open>try\<close> gives the string
  of line 334; a document in which neither \<open>lattice\<close> nor \<open>sentences\<close> is found gives
  the string of line 329.
\<close>

theorem C5_extract_never_raises:
  "(\<exists>text. extract_transcript_text loads result = Inr text)
   \<and> (\<forall>e. extract_try loads result = Inl e \<longrightarrow>
          extract_transcript_text loads result = Inr extraction_failed)
   \<and> (\<forall>content raw doc.
          py_getitem result (ascii ''content'') = Inr content
          \<and> py_getitem content (ascii ''orderResult'') = Inr (JStr raw)
          \<and> loads raw = Some doc
          \<and> py_contains (ascii ''lattice'') doc = Inr False
          \<and> py_contains (ascii ''sentences'') doc = Inr False \<longrightarrow>
          extract_transcript_text loads result = Inr unrecognised_format)"
proof (intro conjI allI impI)
  show "\<exists>text. extract_transcript_text loads result = Inr text"
    by (simp add: extract_catches split: sum.split)
next
  fix e assume "extract_try loads result = Inl e"
  then show "extract_transcript_text loads result = Inr extraction_failed"
    by (simp add: extract_catches)
next
  fix content raw doc
  assume "py_getitem result (ascii ''content'') = Inr content
          \<and> py_getitem content (ascii ''orderResult'') = Inr (JStr raw)
          \<and> loads raw = Some doc
          \<and> py_contains (ascii ''lattice'') doc = Inr False
          \<and> py_contains (ascii ''sentences'') doc = Inr False"
  then have "extract_try loads result = Inr unrecognised_format"
    by (simp add: extract_try_def bind_exc_Inr)
  then show "extract_transcript_text loads result = Inr unrecognised_format"
    by (simp add: extract_catches)
qed

theorem C5_extract_never_raises_witness:
  "extract_try example_loads (example_result (ascii ''{lattice: 5}'')) = Inl TypeError
   \<and> extract_transcript_text example_loads (example_result (ascii ''{lattice: 5}'')) = Inr extraction_failed
   \<and> py_contains (ascii ''lattice'') (JObj [(ascii ''foo'', JInt 1)]) = Inr False
   \<and> py_contains (ascii ''sentences'') (JObj [(ascii ''foo'', JInt 1)]) = Inr False
   \<and> extract_transcript_text example_loads (example_result (ascii ''{foo: 1}'')) = Inr unrecognised_format"
proof -
  let ?c = "\<lambda>raw. JObj [(ascii ''orderInfo'', JObj [(ascii ''status'', JInt 4)]),
                       (ascii ''orderResult'', JStr raw)]"
  have c: "py_getitem (example_result raw) (ascii ''content'') = Inr (?c raw)" for raw
    by (simp add: example_result_def ascii_def)
  have r: "py_getitem (?c raw) (ascii ''orderResult'') = Inr (JStr raw)" for raw
    by (simp add: ascii_def)
  have l: "example_loads (ascii ''{foo: 1}'') = Some (JObj [(ascii ''foo'', JInt 1)])"
    by (simp add: example_loads_def ascii_def)
  have n1: "py_contains (ascii ''lattice'') (JObj [(ascii ''foo'', JInt 1)]) = Inr False"
    by (simp add: ascii_def)
  have n2: "py_contains (ascii ''sentences'') (JObj [(ascii ''foo'', JInt 1)]) = Inr False"
    by (simp add: ascii_def)
  have e: "extract_try example_loads (example_result (ascii ''{lattice: 5}'')) = Inl TypeError"
    by (simp add: extract_try_def example_loads_def example_result_def bind_exc_def ascii_def)
  from C5_extract_never_raises [of example_loads "example_result (ascii ''{lattice: 5}'')"] e
  have a: "extract_transcript_text example_loads (example_result (ascii ''{lattice: 5}'')) = Inr extraction_failed"
    by blast
  from C5_extract_never_raises [of example_loads "example_result (ascii ''{foo: 1}'')"] c r l n1 n2
  have b: "extract_transcript_text example_loads (example_result (ascii ''{foo: 1}'')) = Inr unrecognised_format"
    by blast
  from a b e n1 n2 show ?thesis
    by simp
qed

subsection \<open>Signature and polling\<close>

lemma every_exception_is_caught: "is_Exception e"
  by (cases e) simp_all

lemma py_getitem_field:
  "py_getitem v k = (case field k v of [] \<Rightarrow> Inl (if is_obj v then KeyError else TypeError) | x # _ \<Rightarrow> Inr x)"
  by (cases v) (simp_all add: field_def split: option.splits)

lemma status_of_cases:
  obtains e where "status_of result = Inl e" "reply_status result = []"
  | s where "status_of result = Inr s" "reply_status result = [s]"
proof -
  have "(\<exists>e. status_of result = Inl e \<and> reply_status result = [])
      \<or> (\<exists>s. status_of result = Inr s \<and> reply_status result = [s])"
    by (auto simp: status_of_def reply_status_def py_getitem_field bind_exc_def field_def
        split: json.splits option.splits list.splits)
  then show ?thesis
    using that by blast
qed

lemma poll_step_kind:
  "poll_step reply =
     (case reply_kind reply of
        Complete \<Rightarrow> (case reply of Response c (Some result) \<Rightarrow> Done result | _ \<Rightarrow> Again True)
      | InProgress \<Rightarrow> Again False
      | _ \<Rightarrow> Again True)"
proof (cases reply)
  case RequestFailed
  then show ?thesis
    by (simp add: poll_step_def poll_try_def)
next
  case (Response c body)
  show ?thesis
  proof (cases "c = 200")
    case False
    with Response show ?thesis
      by (cases body) (simp_all add: poll_step_def poll_try_def)
  next
    case True
    show ?thesis
    proof (cases body)
      case None
      with Response True show ?thesis
        by (simp add: poll_step_def poll_try_def)
    next
      case (Some result)
      show ?thesis
      proof (cases "field (ascii ''code'') result")
        case Nil
        then have "(\<exists>e. py_get result (ascii ''code'') JNull = Inl e)
            \<or> (py_get result (ascii ''code'') JNull = Inr JNull
                \<and> (\<exists>e. py_getitem result (ascii ''code'') = Inl e))"
          by (cases result) (simp_all add: field_def split: option.splits)
        with Response True Some Nil show ?thesis
          by (auto simp: poll_step_def poll_try_def body_kind_def bind_exc_def every_exception_is_caught)
      next
        case (Cons code rest)
        then have get: "py_get result (ascii ''code'') JNull = Inr code"
          "py_getitem result (ascii ''code'') = Inr code"
          by (cases result; simp add: field_def split: option.splits)+
        show ?thesis
        proof (cases "py_eq_int code 0")
          case False
          with Response True Some Cons get show ?thesis
            by (cases "ERROR_CODES_get code unknown_error")
               (simp_all add: poll_step_def poll_try_def body_kind_def bind_exc_def every_exception_is_caught)
        next
          case zero: True
          show ?thesis
          proof (rule status_of_cases [of result])
            fix e assume "status_of result = Inl e" "reply_status result = []"
            with Response True Some Cons get zero show ?thesis
              by (simp add: poll_step_def poll_try_def body_kind_def bind_exc_def every_exception_is_caught)
          next
            fix s assume "status_of result = Inr s" "reply_status result = [s]"
            with Response True Some Cons get zero show ?thesis
              by (simp add: poll_step_def poll_try_def body_kind_def bind_exc_def status_kind_def
                  every_exception_is_caught)
          qed
        qed
      qed
    qed
  qed
qed

lemma generate_signa_sign:
  "generate_signa K self = sign K (appid self) (secret_key self) (ts self)"
  by (simp add: generate_signa_def sign_def MD5_def HMAC_SHA1_def base64_def)

lemma update_timestamp_fields:
  "appid (update_timestamp K now self) = appid self"
  "secret_key (update_timestamp K now self) = secret_key self"
  "max_retry (update_timestamp K now self) = max_retry self"
  "poll_interval (update_timestamp K now self) = poll_interval self"
  "result_type (update_timestamp K now self) = result_type self"
  "ts (update_timestamp K now self) = str_int now"
  "signa (update_timestamp K now self) = sign K (appid self) (secret_key self) (str_int now)"
  by (simp_all add: update_timestamp_def generate_signa_sign)

lemma step_nonterminal:
  assumes "reply_kind r \<noteq> Complete" and "reply_kind r \<noteq> Failed"
  shows "poll_step r = Again (counted r)"
  using assms by (cases "reply_kind r") (simp_all add: poll_step_kind counted_def)

lemma step_failed:
  assumes "reply_kind r = Failed"
  shows "poll_step r = Again True"
  using assms by (simp add: poll_step_kind)

lemma step_malformed:
  assumes "malformed_200 r"
  shows "poll_step r = Again True"
proof -
  have "reply_kind r = Malformed \<or> reply_kind r = ApplicationError"
    using assms
    by (cases r rule: malformed_200.cases) (auto simp: body_kind_def split: list.splits)
  then show ?thesis
    by (auto simp: poll_step_kind)
qed

lemma queries_issued_simps:
  "queries_issued \<lparr>outcome = out, attempts = n, events = []\<rparr> = 0"
  "queries_issued (r\<lparr>events := Query rq # Sleep d # events r\<rparr>) = Suc (queries_issued r)"
  by (simp_all add: queries_issued_def)

lemma poll_loop_nonterminal:
  assumes "\<forall>r\<in>set rs. reply_kind r \<noteq> Complete \<and> reply_kind r \<noteq> Failed"
  shows "queries_issued (poll_loop self req n rs) \<le> length rs
    \<and> attempts (poll_loop self req n rs)
        = n + int (length (filter counted (take (queries_issued (poll_loop self req n rs)) rs)))
    \<and> (if n + int (length (filter counted rs)) < max_retry self
        then outcome (poll_loop self req n rs) = Pending
           \<and> queries_issued (poll_loop self req n rs) = length rs
        else outcome (poll_loop self req n rs) = Raised polling_timeout
           \<and> attempts (poll_loop self req n rs) = max n (max_retry self))"
  using assms
proof (induction rs arbitrary: n)
  case Nil
  then show ?case
    by (simp add: queries_issued_simps)
next
  case (Cons r rs)
  show ?case
  proof (cases "n < max_retry self")
    case False
    then show ?thesis
      by (simp add: queries_issued_simps)
  next
    case True
    from Cons.prems have step: "poll_step r = Again (counted r)"
      by (simp add: step_nonterminal)
    let ?n = "if counted r then n + 1 else n"
    from Cons.prems have "\<forall>r\<in>set rs. reply_kind r \<noteq> Complete \<and> reply_kind r \<noteq> Failed"
      by simp
    note ih = Cons.IH [OF this, of ?n]
    from True step have unfold: "poll_loop self req n (r # rs)
        = (poll_loop self req ?n rs)\<lparr>events := Query req # Sleep (poll_interval self)
             # events (poll_loop self req ?n rs)\<rparr>"
      by (simp add: Let_def)
    show ?thesis
      unfolding unfold queries_issued_simps
      using ih True by (auto split: if_splits)
  qed
qed

lemma poll_loop_all_counted:
  assumes "\<forall>r\<in>set rs. poll_step r = Again True"
    and "n \<le> max_retry self" and "max_retry self - n \<le> int (length rs)"
  shows "poll_loop self req n rs =
     \<lparr>outcome = Raised polling_timeout, attempts = max_retry self,
      events = concat (replicate (nat (max_retry self - n)) [Query req, Sleep (poll_interval self)])\<rparr>"
  using assms
proof (induction rs arbitrary: n)
  case Nil
  then show ?case by simp
next
  case (Cons r rs)
  show ?case
  proof (cases "n < max_retry self")
    case False
    with Cons.prems show ?thesis by simp
  next
    case True
    then have "nat (max_retry self - n) = Suc (nat (max_retry self - (n + 1)))"
      by simp
    moreover from Cons.prems True
    have "poll_loop self req (n + 1) rs =
       \<lparr>outcome = Raised polling_timeout, attempts = max_retry self,
        events = concat (replicate (nat (max_retry self - (n + 1))) [Query req, Sleep (poll_interval self)])\<rparr>"
      by (intro Cons.IH) simp_all
    ultimately show ?thesis
      using True Cons.prems(1) by simp
  qed
qed

lemma poll_loop_events:
  "e \<in> set (events (poll_loop self req n rs)) \<Longrightarrow> e = Query req \<or> e = Sleep (poll_interval self)"
proof (induction rs arbitrary: n)
  case Nil
  then show ?case by (simp split: if_splits)
next
  case (Cons r rs)
  then show ?case
    by (cases "poll_step r") (auto simp: Let_def split: if_splits)
qed

lemma poll_step_status_reply:
  "poll_step (status_reply 0) = Again False"
  "poll_step (status_reply 1) = Again False"
  "poll_step (status_reply 2) = Again True"
  "poll_step (status_reply 3) = Again False"
  "poll_step (status_reply 5) = Again True"
  by (simp_all add: poll_step_def poll_try_def status_reply_def status_of_def bind_exc_def
      ascii_def transcription_failed_def)

lemma poll_step_status_reply_4:
  "poll_step (status_reply 4) = Done (JObj [(ascii ''code'', JInt 0),
      (ascii ''content'', JObj [(ascii ''orderInfo'', JObj [(ascii ''status'', JInt 4)]),
                               (ascii ''orderResult'', JStr [])])])"
  by (simp add: poll_step_def poll_try_def status_reply_def status_of_def bind_exc_def ascii_def)

lemma example_poll:
  "get_transcription_result example_crypto 1700000000 example_client example_upload replies
   = (update_timestamp example_crypto 1700000000 example_client,
      poll_loop (update_timestamp example_crypto 1700000000 example_client) example_request 0 replies)"
  by (simp add: get_transcription_result_def Let_def example_upload_def bind_exc_def
      update_timestamp_fields example_request_def example_client_def ascii_def)

lemma example_limits:
  "max_retry (update_timestamp example_crypto 1700000000 example_client) = 3"
  "poll_interval (update_timestamp example_crypto 1700000000 example_client) = 5"
  by (simp_all add: update_timestamp_fields example_client_def)

text \<open>
  C1 on the code: a reply with code 0 and status 5 raises inside the \<open>try\<close> (line 236),
  the handler of line 243 catches it, counts an attempt, sleeps, and the loop queries again.
  With the status 5 followed by a status 4 the call returns the second reply; with three
  status 5 replies and \<open>max_retry = 3\<close> it ends in the timeout of line 249 after three
  queries. The claim says the first reply ends the call.
\<close>

theorem C1_status_5_is_retried:
  "poll_try (status_reply 5) = Inl transcription_failed
   \<and> poll_step (status_reply 5) = Again True
   \<and> snd (get_transcription_result example_crypto 1700000000 example_client example_upload
        [status_reply 5, status_reply 4])
     = \<lparr>outcome = Returned (JObj [(ascii ''code'', JInt 0),
          (ascii ''content'', JObj [(ascii ''orderInfo'', JObj [(ascii ''status'', JInt 4)]),
                                   (ascii ''orderResult'', JStr [])])]),
        attempts = 1,
        events = [Query example_request, Sleep 5, Query example_request]\<rparr>
   \<and> snd (get_transcription_result example_crypto 1700000000 example_client example_upload
        [status_reply 5, status_reply 5, status_reply 5])
     = \<lparr>outcome = Raised polling_timeout,
        attempts = 3,
        events = [Query example_request, Sleep 5, Query example_request, Sleep 5,
                  Query example_request, Sleep 5]\<rparr>"
proof -
  have "poll_try (status_reply 5) = Inl transcription_failed"
    by (simp add: poll_try_def status_reply_def status_of_def bind_exc_def ascii_def)
  then show ?thesis
    by (simp add: example_poll example_limits poll_step_status_reply poll_step_status_reply_4)
qed

text \<open>
  C2, as stated: every attempt is signed afresh and no two attempts carry the same
  timestamp and signature. Two attempts of one call carry the same query.
\<close>

theorem C2_one_signature_for_all_polls_counterexample:
  "events (snd (get_transcription_result example_crypto 1700000000 example_client example_upload
        [status_reply 1, status_reply 1]))
   = [Query example_request, Sleep 5, Query example_request, Sleep 5]"
  by (simp add: example_poll example_limits poll_step_status_reply)

lemma queries_of_call:
  assumes "Query rq \<in> set (events (snd (get_transcription_result K now self upload_result replies)))"
  shows "q_ts rq = str_int now \<and> q_signa rq = sign K (appid self) (secret_key self) (str_int now)"
proof (cases "bind_exc (py_getitem upload_result (ascii ''content''))
                (\<lambda>content. py_getitem content (ascii ''orderId''))")
  case (Inl x)
  with assms show ?thesis
    by (simp add: get_transcription_result_def Let_def)
next
  case (Inr order_id)
  let ?self = "update_timestamp K now self"
  let ?req = "\<lparr>q_appId = appid ?self, q_signa = signa ?self, q_ts = ts ?self,
               q_orderId = order_id, q_resultType = result_type ?self\<rparr>"
  from assms Inr have "Query rq \<in> set (events (poll_loop ?self ?req 0 replies))"
    by (simp add: get_transcription_result_def Let_def)
  then have "Query rq = Query ?req \<or> Query rq = Sleep (poll_interval ?self)"
    by (rule poll_loop_events)
  then have "rq = ?req"
    by simp
  then show ?thesis
    by (simp add: update_timestamp_fields)
qed

text \<open>
  C2, amended: \<open>get_transcription_result\<close> signs once, at its entry, from the clock read
  then; every status query of the call carries that timestamp and its signature, they are
  what the client holds afterwards, and they do not depend on the timestamp and signature
  the client held before (those of the upload).
\<close>

theorem C2_polls_signed_once_at_entry:
  "(\<forall>e\<in>set (events (snd (get_transcription_result K now self upload_result replies))).
      \<forall>rq. e = Query rq \<longrightarrow>
        q_ts rq = str_int now
        \<and> q_signa rq = sign K (appid self) (secret_key self) (str_int now))
   \<and> ts (fst (get_transcription_result K now self upload_result replies)) = str_int now
   \<and> signa (fst (get_transcription_result K now self upload_result replies))
       = sign K (appid self) (secret_key self) (str_int now)
   \<and> get_transcription_result K now (self\<lparr>ts := old_ts, signa := old_signa\<rparr>) upload_result replies
       = get_transcription_result K now self upload_result replies"
proof (intro conjI)
  show "\<forall>e\<in>set (events (snd (get_transcription_result K now self upload_result replies))).
      \<forall>rq. e = Query rq \<longrightarrow>
        q_ts rq = str_int now
        \<and> q_signa rq = sign K (appid self) (secret_key self) (str_int now)"
    using queries_of_call by blast
  show "ts (fst (get_transcription_result K now self upload_result replies)) = str_int now"
    by (simp add: get_transcription_result_def Let_def update_timestamp_fields split: sum.split)
  show "signa (fst (get_transcription_result K now self upload_result replies))
       = sign K (appid self) (secret_key self) (str_int now)"
    by (simp add: get_transcription_result_def Let_def update_timestamp_fields split: sum.split)
  have "update_timestamp K now (self\<lparr>ts := old_ts, signa := old_signa\<rparr>) = update_timestamp K now self"
    by (simp add: update_timestamp_def generate_signa_def)
  then show "get_transcription_result K now (self\<lparr>ts := old_ts, signa := old_signa\<rparr>) upload_result replies
       = get_transcription_result K now self upload_result replies"
    by (simp add: get_transcription_result_def)
qed

theorem C2_polls_signed_once_at_entry_witness:
  "Query example_request \<in> set (events (snd (get_transcription_result example_crypto 1700000000
        example_client example_upload [status_reply 1, status_reply 4])))
   \<and> q_ts example_request = str_int 1700000000
   \<and> q_signa example_request
       = sign example_crypto (appid example_client) (secret_key example_client) (str_int 1700000000)"
proof -
  have m: "Query example_request \<in> set (events (snd (get_transcription_result example_crypto
        1700000000 example_client example_upload [status_reply 1, status_reply 4])))"
    by (simp add: example_poll example_limits poll_step_status_reply poll_step_status_reply_4)
  from C2_polls_signed_once_at_entry [of example_crypto 1700000000 example_client example_upload
      "[status_reply 1, status_reply 4]"] m
  show ?thesis
    by blast
qed

text \<open>
  C7: \<open>_generate_signa\<close> is base64 of HMAC-SHA1, keyed with the secret key, of the hex MD5
  of the application id followed by the timestamp; its value is determined by these three
  fields alone, and signing again at the same clock reading leaves the client as it is.
\<close>

theorem C7_signature:
  "generate_signa K self = sign K (appid self) (secret_key self) (ts self)
   \<and> (appid other = appid self \<and> secret_key other = secret_key self \<and> ts other = ts self
        \<longrightarrow> generate_signa K other = generate_signa K self)
   \<and> update_timestamp K now (update_timestamp K now self) = update_timestamp K now self"
  by (simp add: generate_signa_sign update_timestamp_def)

theorem C7_signature_witness:
  "appid (example_client\<lparr>max_retry := 7, signa := ascii ''stale''\<rparr>) = appid example_client
   \<and> secret_key (example_client\<lparr>max_retry := 7, signa := ascii ''stale''\<rparr>) = secret_key example_client
   \<and> ts (example_client\<lparr>max_retry := 7, signa := ascii ''stale''\<rparr>) = ts example_client
   \<and> generate_signa example_crypto (example_client\<lparr>max_retry := 7, signa := ascii ''stale''\<rparr>)
       = generate_signa example_crypto example_client
   \<and> generate_signa example_crypto example_client
       = sign example_crypto (ascii ''app'') (ascii ''key'') (ascii ''1699999990'')"
  using C7_signature [of example_crypto example_client
      "example_client\<lparr>max_retry := 7, signa := ascii ''stale''\<rparr>"]
  by (simp add: example_client_def)

lemma reply_kind_examples:
  "reply_kind (status_reply 0) = InProgress"
  "reply_kind (status_reply 1) = InProgress"
  "reply_kind (status_reply 2) = UnknownStatus"
  "reply_kind (status_reply 3) = InProgress"
  "reply_kind (Response 500 None) = TransportFailure"
  "reply_kind (Response 200 None) = Malformed"
  "reply_kind RequestFailed = TransportFailure"
  by (simp_all add: status_reply_def body_kind_def field_def reply_status_def status_kind_def ascii_def)

text \<open>
  C3, as stated: the counter is incremented exactly on a non-200 status, a non-zero code or
  an unrecognised status. A reply with status 200 whose body is not JSON is none of these,
  and the handler of line 243 counts it.
\<close>

theorem C3_malformed_reply_is_counted_counterexample:
  "reply_kind (Response 200 None) = Malformed
   \<and> poll_step (Response 200 None) = Again True
   \<and> snd (get_transcription_result example_crypto 1700000000 example_client example_upload
        [Response 200 None])
     = \<lparr>outcome = Pending, attempts = 1, events = [Query example_request, Sleep 5]\<rparr>"
  by (simp add: example_poll example_limits poll_step_def poll_try_def)

text \<open>
  C3, amended: over replies none of which is complete or failed, an attempt is counted
  exactly when the reply is a transport failure, an application error, an unknown status
  or an unreadable body, never for the statuses 0, 1 and 3; the counter after the run is
  the number of counted replies among those queried; with fewer than \<open>max_retry\<close> counted
  replies the loop is still polling after all of them, and once \<open>max_retry\<close> are counted it
  raises the timeout with the counter at exactly \<open>max_retry\<close>.
\<close>

theorem C3_attempt_counter:
  assumes "\<forall>r\<in>set replies. reply_kind r \<noteq> Complete \<and> reply_kind r \<noteq> Failed"
    and "0 \<le> max_retry self"
  shows "(\<forall>r\<in>set replies. poll_step r = Again (counted r))
    \<and> (\<forall>r\<in>set replies. reply_kind r = InProgress \<longrightarrow> poll_step r = Again False)
    \<and> attempts (poll_loop self req 0 replies)
        = int (length (filter counted
            (take (queries_issued (poll_loop self req 0 replies)) replies)))
    \<and> (int (length (filter counted replies)) < max_retry self \<longrightarrow>
          outcome (poll_loop self req 0 replies) = Pending
          \<and> queries_issued (poll_loop self req 0 replies) = length replies)
    \<and> (max_retry self \<le> int (length (filter counted replies)) \<longrightarrow>
          outcome (poll_loop self req 0 replies) = Raised polling_timeout
          \<and> attempts (poll_loop self req 0 replies) = max_retry self)"
proof -
  from assms(1) have steps: "\<forall>r\<in>set replies. poll_step r = Again (counted r)"
    by (simp add: step_nonterminal)
  then have "\<forall>r\<in>set replies. reply_kind r = InProgress \<longrightarrow> poll_step r = Again False"
    by (simp add: counted_def)
  moreover note steps
  moreover from poll_loop_nonterminal [OF assms(1), of self req 0] assms(2)
  have "attempts (poll_loop self req 0 replies)
        = int (length (filter counted
            (take (queries_issued (poll_loop self req 0 replies)) replies)))"
    and "int (length (filter counted replies)) < max_retry self \<longrightarrow>
          outcome (poll_loop self req 0 replies) = Pending
          \<and> queries_issued (poll_loop self req 0 replies) = length replies"
    and "max_retry self \<le> int (length (filter counted replies)) \<longrightarrow>
          outcome (poll_loop self req 0 replies) = Raised polling_timeout
          \<and> attempts (poll_loop self req 0 replies) = max_retry self"
    by (auto split: if_splits)
  ultimately show ?thesis
    by blast
qed

theorem C3_attempt_counter_witness:
  "map reply_kind [status_reply 1, Response 500 None, status_reply 3, status_reply 2,
              Response 200 None, status_reply 1]
     = [InProgress, TransportFailure, InProgress, UnknownStatus, Malformed, InProgress]
   \<and> 0 \<le> max_retry example_client
   \<and> max_retry example_client \<le> int (length (filter counted
        [status_reply 1, Response 500 None, status_reply 3, status_reply 2,
         Response 200 None, status_reply 1]))
   \<and> outcome (poll_loop example_client example_request 0
        [status_reply 1, Response 500 None, status_reply 3, status_reply 2,
         Response 200 None, status_reply 1]) = Raised polling_timeout
   \<and> attempts (poll_loop example_client example_request 0
        [status_reply 1, Response 500 None, status_reply 3, status_reply 2,
         Response 200 None, status_reply 1]) = 3
   \<and> int (length (filter counted [status_reply 1, Response 500 None, status_reply 3]))
        < max_retry example_client
   \<and> outcome (poll_loop example_client example_request 0
        [status_reply 1, Response 500 None, status_reply 3]) = Pending
   \<and> attempts (poll_loop example_client example_request 0
        [status_reply 1, Response 500 None, status_reply 3]) = 1
   \<and> queries_issued (poll_loop example_client example_request 0
        [status_reply 1, Response 500 None, status_reply 3]) = 3"
proof -
  let ?long = "[status_reply 1, Response 500 None, status_reply 3, status_reply 2,
                Response 200 None, status_reply 1]"
  let ?short = "[status_reply 1, Response 500 None, status_reply 3]"
  have k1: "\<forall>r\<in>set ?long. reply_kind r \<noteq> Complete \<and> reply_kind r \<noteq> Failed"
    by (simp add: reply_kind_examples)
  have k2: "\<forall>r\<in>set ?short. reply_kind r \<noteq> Complete \<and> reply_kind r \<noteq> Failed"
    by (simp add: reply_kind_examples)
  have m: "0 \<le> max_retry example_client" "max_retry example_client = 3"
    by (simp_all add: example_client_def)
  have c1: "length (filter counted ?long) = 3"
    by (simp add: counted_def reply_kind_examples)
  have c2: "length (filter counted ?short) = 1"
    by (simp add: counted_def reply_kind_examples)
  have g1: "max_retry example_client \<le> int (length (filter counted ?long))"
    by (simp only: c1 m(2))
  have g2: "int (length (filter counted ?short)) < max_retry example_client"
    by (simp only: c2 m(2))
  note t1 = C3_attempt_counter [OF k1 m(1), of example_request]
  note t2 = C3_attempt_counter [OF k2 m(1), of example_request]
  from t1 have "max_retry example_client \<le> int (length (filter counted ?long)) \<longrightarrow>
      outcome (poll_loop example_client example_request 0 ?long) = Raised polling_timeout
      \<and> attempts (poll_loop example_client example_request 0 ?long) = max_retry example_client"
    by (elim conjE)
  with g1 m(2) have a: "outcome (poll_loop example_client example_request 0 ?long) = Raised polling_timeout
      \<and> attempts (poll_loop example_client example_request 0 ?long) = 3"
    by (simp del: poll_loop.simps)
  from t2 have "int (length (filter counted ?short)) < max_retry example_client \<longrightarrow>
      outcome (poll_loop example_client example_request 0 ?short) = Pending
      \<and> queries_issued (poll_loop example_client example_request 0 ?short) = length ?short"
    by (elim conjE)
  with g2 have b: "outcome (poll_loop example_client example_request 0 ?short) = Pending
      \<and> queries_issued (poll_loop example_client example_request 0 ?short) = 3"
    by (simp del: poll_loop.simps)
  from t2 have "attempts (poll_loop example_client example_request 0 ?short)
      = int (length (filter counted
          (take (queries_issued (poll_loop example_client example_request 0 ?short)) ?short)))"
    by (elim conjE)
  with b c2 have c: "attempts (poll_loop example_client example_request 0 ?short) = 1"
    by (simp del: poll_loop.simps)
  have kinds: "map reply_kind ?long
      = [InProgress, TransportFailure, InProgress, UnknownStatus, Malformed, InProgress]"
    by (simp add: reply_kind_examples)
  from kinds m(1) g1 g2 a b c show ?thesis
    by (simp del: poll_loop.simps)
qed

text \<open>
  C10: a reply with HTTP status 200 whose body is not JSON, or lacks the
  \<open>content.orderInfo.status\<close> path, counts an attempt and the loop sleeps and retries; when
  every reply is of this kind the call ends in the timeout of line 249 after \<open>max_retry\<close>
  queries, each followed by a sleep, and not in a decoding or lookup error.
\<close>

theorem C10_malformed_bodies_time_out:
  assumes "\<forall>r\<in>set replies. malformed_200 r"
    and "0 \<le> max_retry self" and "max_retry self \<le> int (length replies)"
  shows "(\<forall>r\<in>set replies. poll_step r = Again True)
    \<and> poll_loop self req 0 replies
        = \<lparr>outcome = Raised polling_timeout, attempts = max_retry self,
           events = concat (replicate (nat (max_retry self)) [Query req, Sleep (poll_interval self)])\<rparr>
    \<and> polling_timeout \<notin> {JSONDecodeError, KeyError, TypeError, AttributeError}"
proof -
  from assms(1) have steps: "\<forall>r\<in>set replies. poll_step r = Again True"
    by (simp add: step_malformed)
  from poll_loop_all_counted [OF steps, of 0 self req] assms(2,3)
  have "poll_loop self req 0 replies
        = \<lparr>outcome = Raised polling_timeout, attempts = max_retry self,
           events = concat (replicate (nat (max_retry self)) [Query req, Sleep (poll_interval self)])\<rparr>"
    by simp
  with steps show ?thesis
    by (simp add: polling_timeout_def)
qed

theorem C10_malformed_bodies_time_out_witness:
  "map malformed_200 [Response 200 None,
              Response 200 (Some (JObj [(ascii ''code'', JInt 0)])),
              Response 200 (Some (JObj [(ascii ''code'', JInt 0), (ascii ''content'', JObj [])]))]
     = [True, True, True]
   \<and> 0 \<le> max_retry example_client
   \<and> max_retry example_client \<le> int (length [Response 200 None,
              Response 200 (Some (JObj [(ascii ''code'', JInt 0)])),
              Response 200 (Some (JObj [(ascii ''code'', JInt 0), (ascii ''content'', JObj [])]))])
   \<and> poll_loop example_client example_request 0
        [Response 200 None,
         Response 200 (Some (JObj [(ascii ''code'', JInt 0)])),
         Response 200 (Some (JObj [(ascii ''code'', JInt 0), (ascii ''content'', JObj [])]))]
      = \<lparr>outcome = Raised polling_timeout, attempts = 3,
         events = [Query example_request, Sleep 5, Query example_request, Sleep 5,
                   Query example_request, Sleep 5]\<rparr>"
proof -
  let ?rs = "[Response 200 None,
              Response 200 (Some (JObj [(ascii ''code'', JInt 0)])),
              Response 200 (Some (JObj [(ascii ''code'', JInt 0), (ascii ''content'', JObj [])]))]"
  have h1: "\<forall>r\<in>set ?rs. malformed_200 r"
    by (simp add: reply_status_def field_def ascii_def)
  have h2: "0 \<le> max_retry example_client"
    by (simp add: example_client_def)
  have h3: "max_retry example_client \<le> int (length ?rs)"
    by (simp add: example_client_def)
  have e: "concat (replicate (nat (max_retry example_client))
             [Query example_request, Sleep (poll_interval example_client)])
      = [Query example_request, Sleep 5, Query example_request, Sleep 5,
         Query example_request, Sleep 5]"
    by (simp add: example_client_def numeral_3_eq_3)
  from C10_malformed_bodies_time_out [OF h1 h2 h3, of example_request]
  have "poll_loop example_client example_request 0 ?rs
      = \<lparr>outcome = Raised polling_timeout, attempts = max_retry example_client,
         events = concat (replicate (nat (max_retry example_client))
           [Query example_request, Sleep (poll_interval example_client)])\<rparr>"
    by (elim conjE)
  with e have "poll_loop example_client example_request 0 ?rs
      = \<lparr>outcome = Raised polling_timeout, attempts = 3,
         events = [Query example_request, Sleep 5, Query example_request, Sleep 5,
                   Query example_request, Sleep 5]\<rparr>"
    by (simp add: example_client_def del: poll_loop.simps)
  moreover have "map malformed_200 ?rs = [True, True, True]"
    using h1 by simp
  ultimately show ?thesis
    using h2 h3 by (simp del: poll_loop.simps)
qed

subsection \<open>The duration estimate\<close>

lemma digits_small: "n < 10 \<Longrightarrow> digits n = [48 + n]"
  by (simp add: digits.simps)

lemma digits_large: "10 \<le> n \<Longrightarrow> digits n = digits (n div 10) @ [48 + n mod 10]"
  by (subst digits.simps) simp

lemma quotient_exponent_lower:
  assumes "0 < n" and "0 < d" and "0 \<le> quotient_exponent n d"
  shows "d * 2 ^ nat (quotient_exponent n d) \<le> n"
proof -
  let ?s = "bitlen n - bitlen d"
  from bitlen_bounds [OF assms(1)] have n: "2 ^ nat (bitlen n - 1) \<le> n"
    by simp
  from bitlen_bounds [OF assms(2)] have d: "d < 2 ^ nat (bitlen d)"
    by simp
  show ?thesis
  proof (cases "(0 \<le> ?s \<and> d * 2 ^ nat ?s \<le> n) \<or> (?s < 0 \<and> d \<le> n * 2 ^ nat (- ?s))")
    case True
    then have e: "quotient_exponent n d = ?s"
      by (simp add: quotient_exponent_def Let_def)
    with assms(3) True show ?thesis
      by auto
  next
    case False
    then have e: "quotient_exponent n d = ?s - 1"
      by (simp add: quotient_exponent_def Let_def)
    with assms(3) have s: "1 \<le> ?s"
      by simp
    have "d * 2 ^ nat (?s - 1) \<le> 2 ^ nat (bitlen d) * 2 ^ nat (?s - 1)"
      using d by (intro mult_right_mono) simp_all
    also have "\<dots> = 2 ^ (nat (bitlen d) + nat (?s - 1))"
      by (simp add: power_add)
    also have "nat (bitlen d) + nat (?s - 1) = nat (bitlen n - 1)"
      using s bitlen_nonneg [of d] by simp
    finally show ?thesis
      using n e by simp
  qed
qed

lemma round_half_even_bounds:
  assumes "0 < b"
  shows "a div b \<le> round_half_even a b"
    and "round_half_even a b \<le> a div b + 1"
    and "round_half_even a b = a div b + 1 \<Longrightarrow> b \<le> 2 * (a mod b)"
  by (auto simp: round_half_even_def Let_def split: if_splits)

lemma rounded_quotient_floor:
  fixes n P :: int
  assumes "0 \<le> n" and "16384 \<le> P"
  shows "round_half_even (n * P) 32000 div P = n div 32000"
proof -
  define k r where "k = n div 32000" and "r = n mod 32000"
  define q r' where "q = (n * P) div 32000" and "r' = (n * P) mod 32000"
  define m where "m = round_half_even (n * P) 32000"
  have n: "n = 32000 * k + r" "0 \<le> r" "r < 32000"
    by (simp_all add: k_def r_def)
  have N: "n * P = 32000 * q + r'" "0 \<le> r'" "r' < 32000"
    by (simp_all add: q_def r'_def)
  have z: "0 \<le> r * P" "r * P \<le> 31999 * P"
    using n(2,3) assms(2) by (simp_all add: mult_right_mono)
  have x: "n * P = 32000 * (k * P) + r * P"
    by (subst n(1)) (simp add: algebra_simps)
  have m: "q \<le> m" "m \<le> q + 1" "m = q + 1 \<Longrightarrow> 32000 \<le> 2 * r'"
    using round_half_even_bounds [of 32000 "n * P"] by (simp_all add: m_def q_def r'_def)
  have lower: "k * P \<le> m"
    using x N z m(1) by linarith
  have upper: "m < k * P + P"
  proof (cases "m = q")
    case True
    with x N z assms(2) show ?thesis by linarith
  next
    case False
    with m have "m = q + 1" "32000 \<le> 2 * r'"
      by simp_all
    with x N z assms(2) show ?thesis by linarith
  qed
  have "m div P = k"
  proof (rule int_div_pos_eq [of m P k "m - k * P"])
    show "m = P * k + (m - k * P)" by (simp add: algebra_simps)
    show "0 \<le> m - k * P" using lower by simp
    show "m - k * P < P" using upper by simp
  qed
  then show ?thesis
    by (simp add: m_def k_def)
qed

lemma exponent_small:
  assumes "0 < n" and "n < 32000 * 2 ^ 39"
  shows "quotient_exponent n 32000 \<le> 38"
proof (rule ccontr)
  assume "\<not> quotient_exponent n 32000 \<le> 38"
  then have e: "39 \<le> quotient_exponent n 32000"
    by simp
  then have "32000 * 2 ^ nat (quotient_exponent n 32000) \<le> n"
    using assms(1) by (intro quotient_exponent_lower) simp_all
  moreover from e have "(2::int) ^ 39 \<le> 2 ^ nat (quotient_exponent n 32000)"
    by (intro power_increasing) simp_all
  ultimately show False
    using assms(2) by simp
qed

lemma int_of_truediv:
  assumes "0 \<le> n" and "n < 32000 * 2 ^ 39"
  shows "int_of_float (truediv n 32000) = n div 32000"
proof (cases "n = 0")
  case True
  then show ?thesis
    by (simp add: truediv_def int_of_float_def)
next
  case False
  with assms(1) have pos: "0 < n"
    by simp
  define e where "e = quotient_exponent n 32000"
  define P :: int where "P = 2 ^ nat (52 - e)"
  from exponent_small [OF pos assms(2)] have e: "e \<le> 38"
    by (simp add: e_def)
  then have "(2::int) ^ 14 \<le> 2 ^ nat (52 - e)"
    by (intro power_increasing) simp_all
  then have P: "16384 \<le> P"
    by (simp add: P_def)
  have t: "truediv n 32000 = (round_half_even (n * P) 32000, e - 52)"
    using False e by (simp add: truediv_def Let_def e_def P_def)
  have "0 \<le> (n * P) div 32000"
    using assms(1) P by (simp add: pos_imp_zdiv_nonneg_iff)
  with round_half_even_bounds(1) [of 32000 "n * P"]
  have m: "0 \<le> round_half_even (n * P) 32000"
    by simp
  have neg: "nat (- (e - 52)) = nat (52 - e)"
    by simp
  from e m have "int_of_float (truediv n 32000) = round_half_even (n * P) 32000 div P"
    unfolding t int_of_float_def P_def by (simp add: neg)
  also have "\<dots> = n div 32000"
    using assms(1) P by (rule rounded_quotient_floor)
  finally show ?thesis .
qed

lemma bitlen_examples:
  "bitlen 32000 = 15"
  "bitlen 17592186044447999 = 54"
  "bitlen 17592186044415999 = 54"
  by code_simp+

lemma digits_eval:
  "str_int 0 = ascii ''0''"
  "str_int 1 = ascii ''1''"
  "str_int 549755813887 = ascii ''549755813887''"
  "str_int 549755813888 = ascii ''549755813888''"
  "str_int 549755813889 = ascii ''549755813889''"
  by (simp_all add: str_int_def digits_small digits_large ascii_def)

text \<open>
  C8, as stated: for every file size the estimate is the floor of the size over 32000. At
  17592186044447999 bytes the quotient is within 2 ^ -14 of the integer 549755813889, the
  double nearest to it is that integer, and the estimate is one more than the floor.
\<close>

theorem C8_float_quotient_counterexample:
  "estimate_duration 17592186044447999 = ascii ''549755813889''
   \<and> str_int (17592186044447999 div 32000) = ascii ''549755813888''"
proof -
  have "quotient_exponent 17592186044447999 32000 = 39"
    by (simp add: quotient_exponent_def bitlen_examples)
  then have "truediv 17592186044447999 32000 = (4503599627378688, -13)"
    by (simp add: truediv_def round_half_even_def)
  then have "int_of_float (truediv 17592186044447999 32000) = 549755813889"
    by (simp add: int_of_float_def)
  then show ?thesis
    by (simp add: estimate_duration_def digits_eval)
qed

text \<open>
  C8, amended: for every file size from 0 up to, not including, 32000 * 2 ^ 39 bytes, the
  estimate is the decimal string of the floor of the size over 32000; a file of 0 bytes
  gives "0" and one of 32000 bytes gives "1".
\<close>

theorem C8_estimate_duration:
  assumes "0 \<le> file_size" and "file_size < 32000 * 2 ^ 39"
  shows "estimate_duration file_size = str_int (file_size div 32000)
       \<and> estimate_duration 0 = ascii ''0''
       \<and> estimate_duration 32000 = ascii ''1''"
proof -
  have "estimate_duration n = str_int (n div 32000)" if "0 \<le> n" "n < 32000 * 2 ^ 39" for n
    using that by (simp add: estimate_duration_def int_of_truediv)
  from this [of file_size] this [of 0] this [of 32000] assms show ?thesis
    by (simp add: digits_eval)
qed

theorem C8_estimate_duration_witness:
  "(0::int) \<le> 17592186044415999 \<and> (17592186044415999::int) < 32000 * 2 ^ 39
   \<and> estimate_duration 17592186044415999 = ascii ''549755813887''
   \<and> estimate_duration 0 = ascii ''0''
   \<and> estimate_duration 32000 = ascii ''1''"
proof -
  have h1: "(0::int) \<le> 17592186044415999"
    by simp
  have h2: "(17592186044415999::int) < 32000 * 2 ^ 39"
    by simp
  from C8_estimate_duration [OF h1 h2] h1 h2 show ?thesis
    by (simp add: digits_eval)
qed

subsection \<open>Uploading\<close>

lemma field_lookups:
  assumes "field k v = [x]"
  shows "py_get v k d = Inr x" and "py_getitem v k = Inr x"
  using assms by (cases v; simp add: field_def split: option.splits)+

text \<open>
  C6, as stated: on success the upload returns the order identifier. It returns the whole
  parsed response (line 162), of which the identifier is the member \<open>content.orderId\<close>.
\<close>

theorem C6_upload_returns_whole_response_counterexample:
  "upload_file True (Response 200 (Some example_upload)) = Inr example_upload
   \<and> upload_file True (Response 200 (Some example_upload)) \<noteq> Inr (JStr (ascii ''abc123''))"
  by (simp add: upload_file_def example_upload_def bind_exc_def ascii_def)

text \<open>
  C6, amended: with the file present, a status other than 200 raises \<open>Exception\<close> with the
  HTTP message; a body that is not JSON re-raises the decoding error; an integer code other
  than 0 raises \<open>Exception\<close> with the API message, built from the table's description and
  the code; the three errors are pairwise different; with code 0 and an order identifier in
  the body, the call returns the whole parsed response, which holds the identifier at
  \<open>content.orderId\<close>.
\<close>

theorem C6_upload_outcomes:
  "(status_code \<noteq> 200 \<longrightarrow>
      upload_file True (Response status_code body) = Inl (upload_http_error status_code))
   \<and> upload_file True (Response 200 None) = Inl JSONDecodeError
   \<and> (field (ascii ''code'') result = [JInt n] \<and> n \<noteq> 0 \<longrightarrow>
      upload_file True (Response 200 (Some result)) = Inl (api_error (error_description n) (JInt n)))
   \<and> (field (ascii ''code'') result = [JInt 0]
      \<and> field (ascii ''content'') result = [content]
      \<and> field (ascii ''orderId'') content = [order_id] \<longrightarrow>
      upload_file True (Response 200 (Some result)) = Inr result
      \<and> bind_exc (py_getitem result (ascii ''content''))
           (\<lambda>content. py_getitem content (ascii ''orderId'')) = Inr order_id)
   \<and> distinct [upload_http_error status_code, JSONDecodeError, api_error error_msg code]"
proof (intro conjI impI)
  show "upload_file True (Response status_code body) = Inl (upload_http_error status_code)"
    if "status_code \<noteq> 200"
    using that by (simp add: upload_file_def)
  show "upload_file True (Response 200 None) = Inl JSONDecodeError"
    by (simp add: upload_file_def)
  show "upload_file True (Response 200 (Some result)) = Inl (api_error (error_description n) (JInt n))"
    if "field (ascii ''code'') result = [JInt n] \<and> n \<noteq> 0"
    using that
    by (simp add: upload_file_def field_lookups bind_exc_def error_description_def)
  assume ok: "field (ascii ''code'') result = [JInt 0]
      \<and> field (ascii ''content'') result = [content]
      \<and> field (ascii ''orderId'') content = [order_id]"
  then show "upload_file True (Response 200 (Some result)) = Inr result"
    by (simp add: upload_file_def field_lookups bind_exc_def)
  from ok show "bind_exc (py_getitem result (ascii ''content''))
           (\<lambda>content. py_getitem content (ascii ''orderId'')) = Inr order_id"
    by (simp add: field_lookups bind_exc_def)
next
  show "distinct [upload_http_error status_code, JSONDecodeError, api_error error_msg code]"
    by (simp add: upload_http_error_def api_error_def)
qed

theorem C6_upload_outcomes_witness:
  "upload_file True (Response 500 None) = Inl (upload_http_error 500)
   \<and> field (ascii ''code'') (JObj [(ascii ''code'', JInt 10006)]) = [JInt 10006]
   \<and> upload_file True (Response 200 (Some (JObj [(ascii ''code'', JInt 10006)])))
       = Inl (api_error [26080, 25928, 30340, 31614, 21517] (JInt 10006))
   \<and> field (ascii ''code'') example_upload = [JInt 0]
   \<and> field (ascii ''content'') example_upload = [JObj [(ascii ''orderId'', JStr (ascii ''abc123''))]]
   \<and> field (ascii ''orderId'') (JObj [(ascii ''orderId'', JStr (ascii ''abc123''))])
       = [JStr (ascii ''abc123'')]
   \<and> upload_file True (Response 200 (Some example_upload)) = Inr example_upload"
proof -
  have a: "(500::int) \<noteq> 200"
    by simp
  have b: "field (ascii ''code'') (JObj [(ascii ''code'', JInt 10006)]) = [JInt 10006]"
    "(10006::int) \<noteq> 0"
    by (simp_all add: field_def)
  have c: "field (ascii ''code'') example_upload = [JInt 0]"
    "field (ascii ''content'') example_upload = [JObj [(ascii ''orderId'', JStr (ascii ''abc123''))]]"
    "field (ascii ''orderId'') (JObj [(ascii ''orderId'', JStr (ascii ''abc123''))])
       = [JStr (ascii ''abc123'')]"
    by (simp_all add: field_def example_upload_def ascii_def)
  have d: "error_description 10006 = [26080, 25928, 30340, 31614, 21517]"
    by (simp add: error_description_def ERROR_CODES_def)
  note t1 = C6_upload_outcomes [of 500 None "JObj [(ascii ''code'', JInt 10006)]" 10006]
  note t2 = C6_upload_outcomes [of 500 None example_upload 0
      "JObj [(ascii ''orderId'', JStr (ascii ''abc123''))]" "JStr (ascii ''abc123'')"]
  from t1 a have r1: "upload_file True (Response 500 None) = Inl (upload_http_error 500)"
    by blast
  from t1 b d have r2: "upload_file True (Response 200 (Some (JObj [(ascii ''code'', JInt 10006)])))
       = Inl (api_error [26080, 25928, 30340, 31614, 21517] (JInt 10006))"
    by simp
  from t2 c have r3: "upload_file True (Response 200 (Some example_upload)) = Inr example_upload"
    by blast
  from r1 r2 r3 b(1) c show ?thesis
    by simp
qed

end
